theory Spec2Isabelle
  imports Complex_Main
begin

section \<open>Values, exceptions and the outside world\<close>

text \<open>
  The resilient request client of \<^verbatim>\<open>src/api_requests.py\<close> and the operation
  handlers of \<^verbatim>\<open>src/server.py\<close>, as HOL functions. Python floats are modelled by
  rationals (the finite values; NaN and the infinities are outside the model), Python
  exceptions by the left summand of a sum type, \<^verbatim>\<open>Any\<close> by \<open>pyval\<close>.
\<close>

datatype pyval =
    PyNone
  | PyBool bool
  | PyInt int
  | PyFloat rat
  | PyStr string
  | PyList "pyval list"
  | PyDict "(string \<times> pyval) list"

text \<open>
  The exceptions that travel through the code: the client's own
  \<^verbatim>\<open>RequestAPI._RetryableStatus(status, retry_after)\<close>, httpx's
  \<^verbatim>\<open>HTTPStatusError\<close> (with the status of its response) and \<^verbatim>\<open>RequestError\<close>
  (with its message), the builtin errors, tenacity's \<^verbatim>\<open>RetryError\<close>, and fastmcp's
  \<^verbatim>\<open>ToolError\<close> and \<^verbatim>\<open>ResourceError\<close> (with their message).
\<close>

datatype exn =
    RetryableStatus int "rat option"
  | HTTPStatusError int
  | RequestError string
  | ValueError
  | TypeError
  | AttributeError
  | RecursionError
  | ValidationError
  | RetryError
  | ToolError string
  | ResourceError string

text \<open>
  A datetime as \<^verbatim>\<open>email.utils.parsedate_to_datetime\<close> returns it: the wall-clock
  fields as seconds since the epoch, and the UTC offset of its \<^verbatim>\<open>tzinfo\<close>
  (\<open>None\<close> for a naive datetime).
\<close>

record pydatetime =
  wall_seconds :: rat
  utcoffset :: "rat option"

text \<open>
  What the code reads of an \<^verbatim>\<open>httpx.Response\<close>: \<^verbatim>\<open>status_code\<close>,
  \<^verbatim>\<open>headers.get("Retry-After")\<close>, the outcome of \<^verbatim>\<open>json()\<close> and \<^verbatim>\<open>text\<close>.
  \<^verbatim>\<open>json()\<close> is \<^verbatim>\<open>json.loads\<close> on the body: it returns the decoded value, raises a
  ValueError (JSONDecodeError and UnicodeDecodeError are ValueErrors), or, on a body
  that is nested too deeply, raises RecursionError, which is not a ValueError. A decoded
  JSON \<^verbatim>\<open>null\<close> is Python's \<^verbatim>\<open>None\<close>, here \<open>Decoded PyNone\<close>.
\<close>

datatype json_outcome =
    Decoded pyval
  | RaisesValueError
  | RaisesRecursionError

record response =
  status_code :: int
  retry_after_header :: "string option"
  json :: json_outcome
  body_text :: string

datatype params =
    ParamMapping "(string \<times> pyval) list"
  | ParamSequence "(string \<times> pyval) list"
  | ParamOther pyval

record request =
  req_path :: string
  req_headers :: "(string \<times> string) list"
  req_params :: params

text \<open>
  The world outside the repository, as parameters: the transport
  (\<^verbatim>\<open>httpx.Client.get\<close>, answering the request of the n-th attempt with a response or
  an exception), \<^verbatim>\<open>random.random()\<close> as drawn when the wait after the n-th attempt
  is computed, the clock \<^verbatim>\<open>datetime.now(timezone.utc)\<close> in seconds, the builtin
  \<^verbatim>\<open>float\<close> on a string (\<open>None\<close> when it raises ValueError, the one exception it
  has for a string), \<^verbatim>\<open>parsedate_to_datetime\<close>, which returns a datetime or
  None, or raises, and \<^verbatim>\<open>validators.url\<close> with the keyword arguments of
  \<^verbatim>\<open>validate_url_with_ssrf_guard\<close>, given the URL and the scheme predicate: the truth
  value of what it returns, or the exception it raises; and the text that \<^verbatim>\<open>str\<close> gives
  for an exception of a library.
\<close>

record env =
  client_get :: "int \<Rightarrow> request \<Rightarrow> exn + response"
  random_random :: "int \<Rightarrow> rat"
  now :: rat
  py_float :: "string \<Rightarrow> rat option"
  parsedate_to_datetime :: "string \<Rightarrow> exn + pydatetime option"
  validators_url :: "string \<Rightarrow> (string \<Rightarrow> bool) \<Rightarrow> exn + bool"
  library_str :: "exn \<Rightarrow> string"

text \<open>
  The fields of \<^verbatim>\<open>RequestAPI\<close> that \<^verbatim>\<open>__init__\<close> sets from its arguments, but for
  \<^verbatim>\<open>timeout\<close>, which is handed to the client as it is.
\<close>

record request_api =
  base_url :: string
  headers :: "(string \<times> string) list"
  default_params :: "(string \<times> pyval) list"
  return_none_on_404 :: bool
  max_retries :: int
  jitter_max_seconds :: rat

definition RETRYABLE_STATUSES :: "int set" where
  "RETRYABLE_STATUSES = {408, 425, 429, 500, 502, 503, 504}"

section \<open>The Retry-After parser\<close>

text \<open>
  \<^verbatim>\<open>dt - now\<close> followed by \<^verbatim>\<open>total_seconds()\<close>, where \<^verbatim>\<open>now\<close> is aware and in UTC:
  Python raises TypeError when \<^verbatim>\<open>dt\<close> is naive, and otherwise compares the two
  instants in UTC.
\<close>

definition seconds_until :: "pydatetime \<Rightarrow> rat \<Rightarrow> exn + rat" where
  "seconds_until dt t =
     (case utcoffset dt of
        None \<Rightarrow> Inl TypeError
      | Some off \<Rightarrow> Inr (wall_seconds dt - off - t))"

text \<open>
  \<^verbatim>\<open>RequestAPI._parse_retry_after\<close>. \<^verbatim>\<open>float(ra)\<close> is tried first; on its
  ValueError the date is tried, and every exception of \<^verbatim>\<open>parsedate_to_datetime\<close>
  is caught.
\<close>

definition parse_retry_after :: "env \<Rightarrow> response \<Rightarrow> exn + rat option" where
  "parse_retry_after e resp =
     (case retry_after_header resp of
        None \<Rightarrow> Inr None
      | Some ra \<Rightarrow>
          if ra = [] then Inr None
          else
            (case py_float e ra of
               Some v \<Rightarrow> Inr (Some v)
             | None \<Rightarrow>
                 (case parsedate_to_datetime e ra of
                    Inl _ \<Rightarrow> Inr None
                  | Inr None \<Rightarrow> Inr None
                  | Inr (Some dt0) \<Rightarrow>
                      (let dt = (if utcoffset dt0 = None then dt0\<lparr>utcoffset := Some 0\<rparr> else dt0)
                       in case seconds_until dt (now e) of
                            Inl x \<Rightarrow> Inl x
                          | Inr d \<Rightarrow> Inr (Some (max 0 d))))))"

section \<open>Parameter merging\<close>

text \<open>
  A Python dict as an association list in insertion order. \<open>dict_set\<close> is
  \<^verbatim>\<open>d[k] = v\<close>: an existing key keeps its place and takes the new value, a new key is
  appended. \<open>dict_merge d p\<close> is \<^verbatim>\<open>{**d, **p}\<close>.
\<close>

fun dict_set :: "'k \<Rightarrow> 'v \<Rightarrow> ('k \<times> 'v) list \<Rightarrow> ('k \<times> 'v) list" where
  "dict_set k v [] = [(k, v)]"
| "dict_set k v ((k', v') # d) =
     (if k' = k then (k, v) # d else (k', v') # dict_set k v d)"

definition dict_merge :: "('k \<times> 'v) list \<Rightarrow> ('k \<times> 'v) list \<Rightarrow> ('k \<times> 'v) list" where
  "dict_merge d p = fold (\<lambda>(k, v). dict_set k v) p d"

text \<open>The comprehension \<^verbatim>\<open>{k: v for k, v in d.items() if v is not None}\<close>.\<close>

definition drop_none :: "(string \<times> pyval) list \<Rightarrow> (string \<times> pyval) list" where
  "drop_none d = filter (\<lambda>(k, v). v \<noteq> PyNone) d"

text \<open>
  \<^verbatim>\<open>RequestAPI._merge_params\<close>. The sequence-of-pairs branch and the fallback
  both return the argument as it is.
\<close>

definition merge_params :: "request_api \<Rightarrow> params option \<Rightarrow> params" where
  "merge_params api ps =
     (case ps of
        None \<Rightarrow> ParamMapping (drop_none (default_params api))
      | Some (ParamMapping m) \<Rightarrow> ParamMapping (drop_none (dict_merge (default_params api) m))
      | Some (ParamSequence s) \<Rightarrow> ParamSequence s
      | Some (ParamOther v) \<Rightarrow> ParamOther v)"

section \<open>One attempt\<close>

text \<open>
  \<^verbatim>\<open>RequestAPI._parse\<close>: on the ValueError of \<^verbatim>\<open>resp.json()\<close>, \<^verbatim>\<open>resp.text\<close>; an
  exception that is not a ValueError is not caught.
\<close>

definition parse :: "response \<Rightarrow> exn + pyval" where
  "parse resp =
     (if status_code resp = 204 then Inr PyNone
      else
        (case json resp of
           Decoded v \<Rightarrow> Inr v
         | RaisesValueError \<Rightarrow> Inr (PyStr (body_text resp))
         | RaisesRecursionError \<Rightarrow> Inl RecursionError))"

text \<open>\<^verbatim>\<open>RequestAPI._maybe_raise_for_retry\<close>.\<close>

definition maybe_raise_for_retry :: "env \<Rightarrow> response \<Rightarrow> exn + unit" where
  "maybe_raise_for_retry e resp =
     (if status_code resp \<in> RETRYABLE_STATUSES then
        (case parse_retry_after e resp of
           Inl x \<Rightarrow> Inl x
         | Inr retry_after \<Rightarrow> Inl (RetryableStatus (status_code resp) retry_after))
      else Inr ())"

text \<open>
  httpx: \<^verbatim>\<open>Response.is_success\<close> is a status from 200 to 299, and
  \<^verbatim>\<open>Response.raise_for_status()\<close> raises HTTPStatusError for every other status.
\<close>

definition is_success :: "int \<Rightarrow> bool" where
  "is_success s = (200 \<le> s \<and> s \<le> 299)"

definition raise_for_status :: "response \<Rightarrow> exn + unit" where
  "raise_for_status resp =
     (if is_success (status_code resp) then Inr () else Inl (HTTPStatusError (status_code resp)))"

text \<open>
  The arguments that \<^verbatim>\<open>_get_once\<close> and \<^verbatim>\<open>_aget_once\<close> hand to the client:
  the path, \<^verbatim>\<open>{**self.headers, **(headers or {})}\<close> and the merged parameters.
\<close>

definition request_of ::
  "request_api \<Rightarrow> string \<Rightarrow> params option \<Rightarrow> (string \<times> string) list option \<Rightarrow> request" where
  "request_of api path ps hdrs =
     \<lparr>req_path = path,
      req_headers = dict_merge (headers api) (case hdrs of None \<Rightarrow> [] | Some h \<Rightarrow> h),
      req_params = merge_params api ps\<rparr>"

text \<open>
  \<^verbatim>\<open>RequestAPI._get_once\<close>, at attempt \<open>n\<close> of the call. \<^verbatim>\<open>_aget_once\<close> has the
  same body behind \<^verbatim>\<open>await\<close>.
\<close>

definition get_once ::
  "request_api \<Rightarrow> env \<Rightarrow> int \<Rightarrow> string \<Rightarrow> params option \<Rightarrow> (string \<times> string) list option
     \<Rightarrow> exn + pyval" where
  "get_once api e n path ps hdrs =
     (case client_get e n (request_of api path ps hdrs) of
        Inl x \<Rightarrow> Inl x
      | Inr resp \<Rightarrow>
          (case maybe_raise_for_retry e resp of
             Inl x \<Rightarrow> Inl x
           | Inr _ \<Rightarrow>
               if status_code resp = 404 \<and> return_none_on_404 api then Inr PyNone
               else
                 (case raise_for_status resp of
                    Inl x \<Rightarrow> Inl x
                  | Inr _ \<Rightarrow> parse resp)))"

definition aget_once ::
  "request_api \<Rightarrow> env \<Rightarrow> int \<Rightarrow> string \<Rightarrow> params option \<Rightarrow> (string \<times> string) list option
     \<Rightarrow> exn + pyval" where
  "aget_once api e n path ps hdrs =
     (case client_get e n (request_of api path ps hdrs) of
        Inl x \<Rightarrow> Inl x
      | Inr resp \<Rightarrow>
          (case maybe_raise_for_retry e resp of
             Inl x \<Rightarrow> Inl x
           | Inr _ \<Rightarrow>
               if status_code resp = 404 \<and> return_none_on_404 api then Inr PyNone
               else
                 (case raise_for_status resp of
                    Inl x \<Rightarrow> Inl x
                  | Inr _ \<Rightarrow> parse resp)))"

section \<open>The retry loop\<close>

text \<open>
  tenacity's \<^verbatim>\<open>RetryCallState\<close>: the number of the current attempt, the last
  outcome, the sleep of \<^verbatim>\<open>next_action\<close> (\<open>None\<close> when \<^verbatim>\<open>next_action\<close> is None) and
  \<^verbatim>\<open>idle_for\<close>. \<open>slept\<close> is the trace of the durations handed to \<^verbatim>\<open>self.sleep\<close>,
  oldest first.
\<close>

record retry_call_state =
  attempt_number :: int
  outcome :: "(exn + pyval) option"
  next_action :: "rat option"
  idle_for :: rat
  slept :: "rat list"

definition initial_state :: retry_call_state where
  "initial_state =
     \<lparr>attempt_number = 1, outcome = None, next_action = None, idle_for = 0, slept = []\<rparr>"

text \<open>
  \<^verbatim>\<open>wait_exponential(multiplier, max)\<close> with the defaults \<^verbatim>\<open>exp_base = 2\<close> and
  \<^verbatim>\<open>min = 0\<close>: \<^verbatim>\<open>multiplier * 2 ** (attempt_number - 1)\<close>, cut at \<^verbatim>\<open>max\<close>. The product
  of a float and an integer of 2 ** 1024 or more raises OverflowError, which tenacity
  answers with \<^verbatim>\<open>max\<close>.
\<close>

definition wait_exponential :: "rat \<Rightarrow> rat \<Rightarrow> int \<Rightarrow> rat" where
  "wait_exponential multiplier mx n =
     (if 1024 \<le> n - 1 then mx
      else max (max 0 0) (min (multiplier * 2 ^ nat (n - 1)) mx))"

text \<open>\<^verbatim>\<open>wait_random(min, max)\<close>, with \<open>r\<close> the value of \<^verbatim>\<open>random.random()\<close>.\<close>

definition wait_random :: "rat \<Rightarrow> rat \<Rightarrow> rat \<Rightarrow> rat" where
  "wait_random mn mx r = mn + r * (mx - mn)"

text \<open>
  The strategies that \<^verbatim>\<open>RequestAPI._retrying\<close> and \<^verbatim>\<open>_aretrying\<close> hand to tenacity:
  the sum of the two waits, \<^verbatim>\<open>stop_after_attempt(self.max_retries)\<close> and
  \<^verbatim>\<open>retry_if_exception_type((_RetryableStatus, httpx.RequestError))\<close>.
\<close>

definition wait :: "request_api \<Rightarrow> env \<Rightarrow> retry_call_state \<Rightarrow> rat" where
  "wait api e st =
     wait_exponential (1 / 2) 8 (attempt_number st)
       + wait_random 0 (jitter_max_seconds api) (random_random e (attempt_number st))"

definition stop_after_attempt :: "int \<Rightarrow> retry_call_state \<Rightarrow> bool" where
  "stop_after_attempt max_attempt_number st = (max_attempt_number \<le> attempt_number st)"

definition retry_if_exception_type :: "retry_call_state \<Rightarrow> bool" where
  "retry_if_exception_type st =
     (case outcome st of
        Some (Inl (RetryableStatus _ _)) \<Rightarrow> True
      | Some (Inl (RequestError _)) \<Rightarrow> True
      | _ \<Rightarrow> False)"

text \<open>
  \<^verbatim>\<open>RequestAPI._maybe_sleep_until_retry_after\<close>, the \<^verbatim>\<open>before_sleep\<close> hook: it
  assigns \<^verbatim>\<open>retry_state.next_action.sleep\<close>, which raises AttributeError when
  \<^verbatim>\<open>next_action\<close> is None.
\<close>

definition maybe_sleep_until_retry_after :: "retry_call_state \<Rightarrow> exn + retry_call_state" where
  "maybe_sleep_until_retry_after st =
     (case outcome st of
        Some (Inl (RetryableStatus _ (Some retry_after))) \<Rightarrow>
          (case next_action st of
             None \<Rightarrow> Inl AttributeError
           | Some _ \<Rightarrow> Inr (st\<lparr>next_action := Some (max 0 retry_after)\<rparr>))
      | _ \<Rightarrow> Inr st)"

text \<open>\<^verbatim>\<open>RetryCallState.prepare_for_next_attempt\<close>.\<close>

definition prepare_for_next_attempt :: "retry_call_state \<Rightarrow> retry_call_state" where
  "prepare_for_next_attempt st =
     st\<lparr>outcome := None, attempt_number := attempt_number st + 1, next_action := None\<rparr>"

text \<open>
  The part of tenacity's \<^verbatim>\<open>BaseRetrying.iter\<close> that follows a failed attempt which
  is to be retried and is not the last: the wait strategy gives \<^verbatim>\<open>sleep\<close>,
  \<^verbatim>\<open>next_action\<close> is set to \<^verbatim>\<open>RetryAction(sleep)\<close>, \<^verbatim>\<open>idle_for\<close> grows, the
  \<^verbatim>\<open>before_sleep\<close> hook runs, and \<^verbatim>\<open>DoSleep(sleep)\<close> is returned: the duration
  slept is the local \<^verbatim>\<open>sleep\<close>, whatever the hook has stored in \<^verbatim>\<open>next_action\<close>.
  An exception of the hook leaves \<^verbatim>\<open>iter\<close>.
\<close>

definition plan_sleep ::
  "request_api \<Rightarrow> env \<Rightarrow> retry_call_state \<Rightarrow> exn + rat \<times> retry_call_state" where
  "plan_sleep api e st =
     (let sleep = wait api e st;
          st' = st\<lparr>next_action := Some sleep, idle_for := idle_for st + sleep\<rparr>
      in case maybe_sleep_until_retry_after st' of
           Inl x \<Rightarrow> Inl x
         | Inr st'' \<Rightarrow> Inr (sleep, st''))"

text \<open>
  The \<^verbatim>\<open>DoSleep\<close> branch of the loop: \<^verbatim>\<open>prepare_for_next_attempt()\<close>, then
  \<^verbatim>\<open>self.sleep(do)\<close>.
\<close>

definition sleep_and_prepare ::
  "request_api \<Rightarrow> env \<Rightarrow> retry_call_state \<Rightarrow> exn + retry_call_state" where
  "sleep_and_prepare api e st =
     (case plan_sleep api e st of
        Inl x \<Rightarrow> Inl x
      | Inr (sleep, st') \<Rightarrow> Inr ((prepare_for_next_attempt st')\<lparr>slept := slept st' @ [sleep]\<rparr>))"

text \<open>
  \<^verbatim>\<open>Retrying.__call__\<close> (and \<^verbatim>\<open>AsyncRetrying.__call__\<close>, the same loop with
  \<^verbatim>\<open>await\<close>) with \<^verbatim>\<open>reraise=True\<close>: \<open>fn n\<close> is the outcome of the wrapped call at
  attempt \<open>n\<close>. An outcome that is not to be retried is returned or raised as it is;
  when the stop strategy holds, the last exception is raised again; an exception of the
  \<^verbatim>\<open>before_sleep\<close> hook leaves the loop.
\<close>

function retrying_call ::
  "request_api \<Rightarrow> env \<Rightarrow> (int \<Rightarrow> exn + pyval) \<Rightarrow> retry_call_state
     \<Rightarrow> (exn + pyval) \<times> retry_call_state" where
  "retrying_call api e fn st =
     (let out = fn (attempt_number st);
          st1 = st\<lparr>outcome := Some out\<rparr>
      in if \<not> retry_if_exception_type st1 then (out, st1)
         else if stop_after_attempt (max_retries api) st1 then
           (case out of Inl x \<Rightarrow> (Inl x, st1) | Inr _ \<Rightarrow> (Inl RetryError, st1))
         else
           (case sleep_and_prepare api e st1 of
              Inl x \<Rightarrow> (Inl x, st1)
            | Inr st2 \<Rightarrow> retrying_call api e fn st2))"
  by pat_completeness auto
termination
proof (relation "measure (\<lambda>(api, e, fn, st). nat (max_retries api - attempt_number st))")
  show "wf (measure (\<lambda>(api, e, fn, st). nat (max_retries api - attempt_number st)))"
    by simp
next
  fix api :: request_api and e :: env and fn :: "int \<Rightarrow> exn + pyval"
    and st :: retry_call_state and out st1 st2
  assume "out = fn (attempt_number st)" and "st1 = st\<lparr>outcome := Some out\<rparr>"
    and "\<not> stop_after_attempt (max_retries api) st1"
    and "sleep_and_prepare api e st1 = Inr st2"
  then show "((api, e, fn, st2), (api, e, fn, st))
        \<in> measure (\<lambda>(api, e, fn, st). nat (max_retries api - attempt_number st))"
    by (auto simp: stop_after_attempt_def sleep_and_prepare_def plan_sleep_def
        prepare_for_next_attempt_def maybe_sleep_until_retry_after_def Let_def
        split: option.splits sum.splits exn.splits)
qed

declare retrying_call.simps [simp del]

text \<open>\<^verbatim>\<open>RequestAPI.get\<close> and \<^verbatim>\<open>RequestAPI.aget\<close>: the result and the final retry state.\<close>

definition get ::
  "request_api \<Rightarrow> env \<Rightarrow> string \<Rightarrow> params option \<Rightarrow> (string \<times> string) list option
     \<Rightarrow> (exn + pyval) \<times> retry_call_state" where
  "get api e path ps hdrs =
     retrying_call api e (\<lambda>n. get_once api e n path ps hdrs) initial_state"

definition aget ::
  "request_api \<Rightarrow> env \<Rightarrow> string \<Rightarrow> params option \<Rightarrow> (string \<times> string) list option
     \<Rightarrow> (exn + pyval) \<times> retry_call_state" where
  "aget api e path ps hdrs =
     retrying_call api e (\<lambda>n. aget_once api e n path ps hdrs) initial_state"

section \<open>Notions used in the statements\<close>

text \<open>
  The instant of a datetime in UTC seconds, a datetime without timezone taken as UTC;
  a mapping without its None-valued entries; and an outcome of the transport that the
  client retries: a network failure (\<^verbatim>\<open>httpx.RequestError\<close>) or a response with a
  retryable status.
\<close>

definition utc_instant :: "pydatetime \<Rightarrow> rat" where
  "utc_instant dt = wall_seconds dt - (case utcoffset dt of None \<Rightarrow> 0 | Some off \<Rightarrow> off)"

definition without_none :: "(string \<rightharpoonup> pyval) \<Rightarrow> (string \<rightharpoonup> pyval)" where
  "without_none m k = (case m k of None \<Rightarrow> None | Some v \<Rightarrow> if v = PyNone then None else Some v)"

definition retryable_failure :: "exn + response \<Rightarrow> bool" where
  "retryable_failure r =
     (case r of
        Inl (RequestError m) \<Rightarrow> True
      | Inl _ \<Rightarrow> False
      | Inr resp \<Rightarrow> status_code resp \<in> RETRYABLE_STATUSES)"

section \<open>The URL guard\<close>

text \<open>
  \<^verbatim>\<open>validate_url_with_ssrf_guard\<close>: the scheme predicate is
  \<^verbatim>\<open>lambda s: s in {"http", "https"}\<close>; a ValidationError raised by the library is
  answered with False, any other exception is not caught.
\<close>

definition validate_url_with_ssrf_guard :: "env \<Rightarrow> string \<Rightarrow> exn + bool" where
  "validate_url_with_ssrf_guard e url =
     (case validators_url e url (\<lambda>s. s \<in> {''http'', ''https''}) of
        Inl ValidationError \<Rightarrow> Inr False
      | Inl x \<Rightarrow> Inl x
      | Inr result \<Rightarrow> Inr result)"

section \<open>The operation handlers\<close>

text \<open>Truth value, \<^verbatim>\<open>or\<close>, \<^verbatim>\<open>.get(key, default)\<close> and \<^verbatim>\<open>len\<close> on Python values.\<close>

fun py_truthy :: "pyval \<Rightarrow> bool" where
  "py_truthy PyNone = False"
| "py_truthy (PyBool b) = b"
| "py_truthy (PyInt i) = (i \<noteq> 0)"
| "py_truthy (PyFloat r) = (r \<noteq> 0)"
| "py_truthy (PyStr s) = (s \<noteq> [])"
| "py_truthy (PyList xs) = (xs \<noteq> [])"
| "py_truthy (PyDict d) = (d \<noteq> [])"

definition py_or :: "pyval \<Rightarrow> pyval \<Rightarrow> pyval" where
  "py_or a b = (if py_truthy a then a else b)"

fun py_get :: "pyval \<Rightarrow> string \<Rightarrow> pyval \<Rightarrow> exn + pyval" where
  "py_get (PyDict d) k dflt = Inr (case map_of d k of Some v \<Rightarrow> v | None \<Rightarrow> dflt)"
| "py_get _ k dflt = Inl AttributeError"

fun py_len :: "pyval \<Rightarrow> exn + nat" where
  "py_len (PyStr s) = Inr (length s)"
| "py_len (PyList xs) = Inr (length xs)"
| "py_len (PyDict d) = Inr (length d)"
| "py_len _ = Inl TypeError"

text \<open>The decimal digits of an integer, as an f-string prints it.\<close>

fun string_of_nat :: "nat \<Rightarrow> string" where
  "string_of_nat n =
     (if n < 10 then [''0123456789'' ! n]
      else string_of_nat (n div 10) @ [''0123456789'' ! (n mod 10)])"

declare string_of_nat.simps [simp del]

definition string_of_int :: "int \<Rightarrow> string" where
  "string_of_int i = (if i < 0 then CHR ''-'' # string_of_nat (nat (- i)) else string_of_nat (nat i))"

text \<open>
  The two \<^verbatim>\<open>except\<close> clauses that close every handler: an
  \<^verbatim>\<open>httpx.HTTPStatusError\<close> and an \<^verbatim>\<open>httpx.RequestError\<close> are turned into the
  handler's error (\<^verbatim>\<open>ToolError\<close>, or \<^verbatim>\<open>ResourceError\<close> in \<^verbatim>\<open>fetch_fulltext\<close>)
  with a message; any other exception leaves the handler as it is.
\<close>

definition except_request_errors :: "(string \<Rightarrow> exn) \<Rightarrow> exn \<Rightarrow> exn" where
  "except_request_errors err x =
     (case x of
        HTTPStatusError s \<Rightarrow> err (''Request failed with status: '' @ string_of_int s)
      | RequestError m \<Rightarrow> err (''Network error: '' @ m)
      | _ \<Rightarrow> x)"

text \<open>
  The \<^verbatim>\<open>try\<close> block of a handler: the outcome of \<^verbatim>\<open>await api.aget(...)\<close>, then the
  handler's own processing of the result, under the two \<^verbatim>\<open>except\<close> clauses.
\<close>

definition try_request ::
  "(string \<Rightarrow> exn) \<Rightarrow> exn + pyval \<Rightarrow> (pyval \<Rightarrow> exn + pyval) \<Rightarrow> exn + pyval" where
  "try_request err res body =
     (case (case res of Inl x \<Rightarrow> Inl x | Inr result \<Rightarrow> body result) of
        Inl x \<Rightarrow> Inl (except_request_errors err x)
      | Inr v \<Rightarrow> Inr v)"

text \<open>
  The test \<^verbatim>\<open>result is None or len(result.get(key, []) or []) == 0\<close> that raises
  \<^verbatim>\<open>ToolError(error_message)\<close>. A result that passes goes on to the shaping of the
  output (\<^verbatim>\<open>src/schemas.py\<close>), which is outside this model: the handler's value is
  the result itself.
\<close>

definition raise_if_empty :: "string \<Rightarrow> string \<Rightarrow> pyval \<Rightarrow> exn + pyval" where
  "raise_if_empty key error_message result =
     (if result = PyNone then Inl (ToolError error_message)
      else
        (case py_get result key (PyList []) of
           Inl x \<Rightarrow> Inl x
         | Inr v \<Rightarrow>
             (case py_len (py_or v (PyList [])) of
                Inl x \<Rightarrow> Inl x
              | Inr n \<Rightarrow> if n = 0 then Inl (ToolError error_message) else Inr result)))"

text \<open>
  \<^verbatim>\<open>RequestAPI("https://api.openalex.org", default_params={"mailto": OPENALEX_MAILTO})\<close>
  with the defaults of \<^verbatim>\<open>__init__\<close>, and \<^verbatim>\<open>RequestAPI(jina_prefix[:-1])\<close>.
\<close>

definition openalex_api :: "string \<Rightarrow> request_api" where
  "openalex_api mailto =
     \<lparr>base_url = ''https://api.openalex.org'', headers = [],
      default_params = [(''mailto'', PyStr mailto)], return_none_on_404 = False,
      max_retries = 3, jitter_max_seconds = 1 / 4\<rparr>"

definition jina_prefix :: string where
  "jina_prefix = ''https://r.jina.ai/''"

definition jina_api :: request_api where
  "jina_api =
     \<lparr>base_url = butlast jina_prefix, headers = [], default_params = [],
      return_none_on_404 = False, max_retries = 3, jitter_max_seconds = 1 / 4\<rparr>"

text \<open>
  The handlers. \<open>mailto\<close> is \<^verbatim>\<open>OPENALEX_MAILTO\<close>; \<open>ps\<close> is the \<^verbatim>\<open>params\<close> dict that
  the handler has built from its arguments (filter, sort, page, per_page).
\<close>

definition search_papers :: "env \<Rightarrow> string \<Rightarrow> (string \<times> pyval) list \<Rightarrow> exn + pyval" where
  "search_papers e mailto ps =
     try_request ToolError
       (fst (aget (openalex_api mailto) e ''/works'' (Some (ParamMapping ps)) None))
       (raise_if_empty ''results'' ''No works found with the query.'')"

definition search_authors :: "env \<Rightarrow> string \<Rightarrow> (string \<times> pyval) list \<Rightarrow> exn + pyval" where
  "search_authors e mailto ps =
     try_request ToolError
       (fst (aget (openalex_api mailto) e ''/authors'' (Some (ParamMapping ps)) None))
       (raise_if_empty ''results'' ''No authors found with the query.'')"

definition search_institutions :: "env \<Rightarrow> string \<Rightarrow> (string \<times> pyval) list \<Rightarrow> exn + pyval" where
  "search_institutions e mailto ps =
     try_request ToolError
       (fst (aget (openalex_api mailto) e ''/institutions'' (Some (ParamMapping ps)) None))
       (raise_if_empty ''results'' ''No institutions found with the query.'')"

definition papers_by_author ::
  "env \<Rightarrow> string \<Rightarrow> string \<Rightarrow> (string \<times> pyval) list \<Rightarrow> exn + pyval" where
  "papers_by_author e mailto author_id ps =
     try_request ToolError
       (fst (aget (openalex_api mailto) e ''/works'' (Some (ParamMapping ps)) None))
       (raise_if_empty ''results'' (''No works found for author_id='' @ author_id @ ''.''))"

definition referenced_works_in_paper :: "env \<Rightarrow> string \<Rightarrow> string \<Rightarrow> exn + pyval" where
  "referenced_works_in_paper e mailto paper_id =
     try_request ToolError
       (fst (aget (openalex_api mailto) e (''/works/'' @ paper_id) None None))
       (raise_if_empty ''referenced_works''
          (''No referenced works found for paper_id='' @ paper_id @ ''.''))"

definition related_works_of_paper :: "env \<Rightarrow> string \<Rightarrow> string \<Rightarrow> exn + pyval" where
  "related_works_of_paper e mailto paper_id =
     try_request ToolError
       (fst (aget (openalex_api mailto) e (''/works/'' @ paper_id) None None))
       (raise_if_empty ''related_works''
          (''No related_works works found for paper_id='' @ paper_id @ ''.''))"

definition works_citing_paper ::
  "env \<Rightarrow> string \<Rightarrow> string \<Rightarrow> (string \<times> pyval) list \<Rightarrow> exn + pyval" where
  "works_citing_paper e mailto paper_id ps =
     try_request ToolError
       (fst (aget (openalex_api mailto) e ''/works'' (Some (ParamMapping ps)) None))
       (raise_if_empty ''results'' (''No cites found for paper_id='' @ paper_id @ ''.''))"

definition strip_jina_prefix :: "string \<Rightarrow> string" where
  "strip_jina_prefix url =
     (if take (length jina_prefix) url = jina_prefix then drop (length jina_prefix) url else url)"

definition fetch_fulltext :: "env \<Rightarrow> string \<Rightarrow> exn + pyval" where
  "fetch_fulltext e preferred_fulltext_url =
     (let url = strip_jina_prefix preferred_fulltext_url
      in case validate_url_with_ssrf_guard e url of
           Inl x \<Rightarrow> Inl x
         | Inr ok \<Rightarrow>
             if \<not> ok then Inl (ResourceError (''Invalid or Disallowed URL: '' @ url))
             else
               try_request ResourceError
                 (fst (aget jina_api e (''/'' @ url) None None))
                 (\<lambda>result.
                    if result = PyNone
                    then Inl (ToolError ''Response is empty content. Try again later.'')
                    else Inr result))"

text \<open>
  What the calling agent gets. The handlers are tools of a \<^verbatim>\<open>FastMCP\<close> server built
  without \<^verbatim>\<open>mask_error_details\<close>: fastmcp runs the tool and answers an exception
  with an error result, whose text is the message of a \<^verbatim>\<open>ToolError\<close> and, for any
  other exception, \<^verbatim>\<open>Error calling tool '<name>': <str of the exception>\<close>.
  \<open>exn_str\<close> is \<^verbatim>\<open>str\<close> on an exception: \<^verbatim>\<open>_RetryableStatus.__init__\<close> sets the
  message \<^verbatim>\<open>Retryable HTTP status: <status>\<close>.
\<close>

definition exn_str :: "env \<Rightarrow> exn \<Rightarrow> string" where
  "exn_str e x =
     (case x of
        RetryableStatus s _ \<Rightarrow> ''Retryable HTTP status: '' @ string_of_int s
      | RequestError m \<Rightarrow> m
      | ToolError m \<Rightarrow> m
      | ResourceError m \<Rightarrow> m
      | _ \<Rightarrow> library_str e x)"

datatype tool_result =
    ToolResult pyval
  | ToolErrorResult string

definition tool_error_prefix :: "string \<Rightarrow> string" where
  "tool_error_prefix name = ''Error calling tool '' @ [CHR 0x27] @ name @ [CHR 0x27] @ '': ''"

definition call_tool :: "env \<Rightarrow> string \<Rightarrow> exn + pyval \<Rightarrow> tool_result" where
  "call_tool e name out =
     (case out of
        Inr v \<Rightarrow> ToolResult v
      | Inl (ToolError m) \<Rightarrow> ToolErrorResult m
      | Inl x \<Rightarrow> ToolErrorResult (tool_error_prefix name @ exn_str e x))"

text \<open>
  The text that names the cause of a failed last attempt: the description of the
  network failure, or the retryable status.
\<close>

definition cause_text :: "env \<Rightarrow> exn + response \<Rightarrow> string" where
  "cause_text e r =
     (case r of
        Inl x \<Rightarrow> ''Network error: '' @ exn_str e x
      | Inr resp \<Rightarrow> ''Retryable HTTP status: '' @ string_of_int (status_code resp))"

text \<open>
  The text of the error result when the last attempt of an OpenAlex handler has failed
  with \<open>r\<close>: the handler's own message for a network failure, fastmcp's message around
  the uncaught \<^verbatim>\<open>_RetryableStatus\<close> for a retryable status.
\<close>

definition handler_report :: "env \<Rightarrow> string \<Rightarrow> exn + response \<Rightarrow> string" where
  "handler_report e name r =
     (case r of
        Inl _ \<Rightarrow> cause_text e r
      | Inr _ \<Rightarrow> tool_error_prefix name @ cause_text e r)"

section \<open>Sample inputs\<close>

text \<open>
  \<^verbatim>\<open>float\<close> on the plain decimal literals: an optional sign, digits, an optional
  fraction. Python's \<^verbatim>\<open>float\<close> accepts more (exponents, surrounding blanks, inf, nan);
  this sample only instantiates \<open>py_float\<close> in the examples below.
\<close>

definition digit_value :: "char \<Rightarrow> nat option" where
  "digit_value c = map_of (zip ''0123456789'' [0, 1, 2, 3, 4, 5, 6, 7, 8, 9]) c"

fun digits_value :: "nat \<Rightarrow> string \<Rightarrow> nat option" where
  "digits_value acc [] = Some acc"
| "digits_value acc (c # cs) =
     (case digit_value c of None \<Rightarrow> None | Some d \<Rightarrow> digits_value (10 * acc + d) cs)"

definition unsigned_decimal :: "string \<Rightarrow> rat option" where
  "unsigned_decimal s =
     (let ip = takeWhile (\<lambda>c. c \<noteq> CHR ''.'') s;
          rest = dropWhile (\<lambda>c. c \<noteq> CHR ''.'') s;
          fp = (if rest = [] then [] else tl rest)
      in if ip = [] \<and> fp = [] then None
         else
           (case (digits_value 0 ip, digits_value 0 fp) of
              (Some a, Some b) \<Rightarrow> Some (of_nat a + of_nat b / 10 ^ length fp)
            | _ \<Rightarrow> None))"

definition float_decimal :: "string \<Rightarrow> rat option" where
  "float_decimal s =
     (case s of
        [] \<Rightarrow> None
      | c # cs \<Rightarrow>
          if c = CHR ''-'' then map_option uminus (unsigned_decimal cs)
          else if c = CHR ''+'' then unsigned_decimal cs
          else unsigned_decimal s)"

text \<open>
  A world for the examples: the transport is given, \<^verbatim>\<open>random.random()\<close> is 1/2 at
  every draw, the clock stands at 1445412470 (ten seconds before
  \<^verbatim>\<open>Wed, 21 Oct 2015 07:28:00 GMT\<close>), \<^verbatim>\<open>parsedate_to_datetime\<close> knows that date,
  the same instant written with the offset \<^verbatim>\<open>+0200\<close>, and the same wall clock with
  the zone \<^verbatim>\<open>-0000\<close> (for which it returns a datetime without timezone), and
  \<^verbatim>\<open>validators.url\<close> accepts what the scheme predicate accepts for the text before the
  first colon. No exception of a library is printed in the examples: its text is left
  empty.
\<close>

definition sample_env :: "(int \<Rightarrow> request \<Rightarrow> exn + response) \<Rightarrow> env" where
  "sample_env transport =
     \<lparr>client_get = transport,
      random_random = (\<lambda>n. 1 / 2),
      now = 1445412470,
      py_float = float_decimal,
      parsedate_to_datetime =
        (\<lambda>s. if s = ''Wed, 21 Oct 2015 07:28:00 GMT''
              then Inr (Some \<lparr>wall_seconds = 1445412480, utcoffset = Some 0\<rparr>)
              else if s = ''Wed, 21 Oct 2015 09:28:00 +0200''
              then Inr (Some \<lparr>wall_seconds = 1445419680, utcoffset = Some 7200\<rparr>)
              else if s = ''Wed, 21 Oct 2015 07:28:00 -0000''
              then Inr (Some \<lparr>wall_seconds = 1445412480, utcoffset = None\<rparr>)
              else Inl ValueError),
      validators_url = (\<lambda>url ok. Inr (ok (takeWhile (\<lambda>c. c \<noteq> CHR '':'') url))),
      library_str = (\<lambda>x. [])\<rparr>"

text \<open>
  A response with the given status, Retry-After header and text, whose \<^verbatim>\<open>json()\<close>
  returns the given value, or raises ValueError when none is given.
\<close>

definition respond :: "int \<Rightarrow> string option \<Rightarrow> pyval option \<Rightarrow> string \<Rightarrow> exn + response" where
  "respond s ra j t =
     Inr \<lparr>status_code = s, retry_after_header = ra,
          json = (case j of Some v \<Rightarrow> Decoded v | None \<Rightarrow> RaisesValueError), body_text = t\<rparr>"

text \<open>
  Transports: one that gives the same outcome at every attempt, and one that gives a
  first outcome at the first attempt and a second one afterwards.
\<close>

definition always :: "exn + response \<Rightarrow> int \<Rightarrow> request \<Rightarrow> exn + response" where
  "always r n req = r"

definition first_then ::
  "exn + response \<Rightarrow> exn + response \<Rightarrow> int \<Rightarrow> request \<Rightarrow> exn + response" where
  "first_then r1 r2 n req = (if n = 1 then r1 else r2)"

section \<open>Properties of the Retry-After parser\<close>

lemma parse_retry_after_returns: "\<exists>h. parse_retry_after e resp = Inr h"
  by (auto simp: parse_retry_after_def seconds_until_def Let_def
      split: option.splits sum.splits)

text \<open>
  C5, as the code has it: a Retry-After value that \<^verbatim>\<open>float\<close> parses as \<open>v\<close> is
  returned as \<open>v\<close> itself, a negative value included; the clamp \<open>max 0 v\<close> is applied
  where the hint is used: the \<^verbatim>\<open>before_sleep\<close> hook, called with a \<^verbatim>\<open>next_action\<close>
  that tenacity has set, replaces its sleep by \<open>max 0 v\<close>.
\<close>

theorem parse_retry_after_numeric_unclamped:
  assumes "retry_after_header resp = Some ra" and "ra \<noteq> []" and "py_float e ra = Some v"
  shows "parse_retry_after e resp = Inr (Some v) \<and>
         maybe_sleep_until_retry_after
           (st\<lparr>outcome := Some (Inl (RetryableStatus s (Some v))), next_action := Some w\<rparr>)
           = Inr (st\<lparr>outcome := Some (Inl (RetryableStatus s (Some v))),
                     next_action := Some (max 0 v)\<rparr>)"
  using assms by (simp add: parse_retry_after_def maybe_sleep_until_retry_after_def)

theorem parse_retry_after_numeric_unclamped_witness:
  "retry_after_header \<lparr>status_code = 429, retry_after_header = Some ''-5'', json = RaisesValueError, body_text = []\<rparr>
     = Some ''-5'' \<and> ''-5'' \<noteq> [] \<and>
   py_float (sample_env (\<lambda>n req. Inl (RequestError []))) ''-5'' = Some (- 5) \<and>
   parse_retry_after (sample_env (\<lambda>n req. Inl (RequestError [])))
     \<lparr>status_code = 429, retry_after_header = Some ''-5'', json = RaisesValueError, body_text = []\<rparr>
     = Inr (Some (- 5)) \<and>
   maybe_sleep_until_retry_after
     (initial_state\<lparr>outcome := Some (Inl (RetryableStatus 429 (Some (- 5)))),
        next_action := Some (5 / 8)\<rparr>)
     = Inr (initial_state\<lparr>outcome := Some (Inl (RetryableStatus 429 (Some (- 5)))),
              next_action := Some 0\<rparr>)"
  using parse_retry_after_numeric_unclamped
    [where resp = "\<lparr>status_code = 429, retry_after_header = Some ''-5'', json = RaisesValueError, body_text = []\<rparr>"
       and ra = "''-5''" and e = "sample_env (\<lambda>n req. Inl (RequestError []))" and v = "- 5"
       and st = initial_state and s = 429 and w = "5 / 8"]
  by (simp add: sample_env_def float_decimal_def unsigned_decimal_def digit_value_def)

text \<open>
  C5 as stated fails: for the header value \<^verbatim>\<open>-5\<close> the parser returns \<open>-5\<close>, not
  \<open>max (-5) 0\<close>.
\<close>

theorem parse_retry_after_clamp_counterexample:
  "py_float (sample_env (\<lambda>n req. Inl (RequestError []))) ''-5'' = Some (- 5) \<and>
   parse_retry_after (sample_env (\<lambda>n req. Inl (RequestError [])))
     \<lparr>status_code = 429, retry_after_header = Some ''-5'', json = RaisesValueError, body_text = []\<rparr>
     \<noteq> Inr (Some (max (- 5) 0))"
  by (simp add: parse_retry_after_def sample_env_def float_decimal_def unsigned_decimal_def
      digit_value_def)

text \<open>
  C6: for a Retry-After value that \<^verbatim>\<open>float\<close> rejects, the parser returns
  \<open>max 0 (parsed_time - now)\<close>, both taken in UTC and a date without timezone taken as
  UTC, when \<^verbatim>\<open>parsedate_to_datetime\<close> returns a date; it returns no hint when the
  date parser raises or returns None, and when the header is empty or missing. In each
  case the parser returns; it does not raise.
\<close>

theorem parse_retry_after_http_date:
  assumes "py_float e ra = None"
  shows "parse_retry_after e (resp\<lparr>retry_after_header := Some ra\<rparr>) =
           Inr (if ra = [] then None
                else case parsedate_to_datetime e ra of
                       Inr (Some dt) \<Rightarrow> Some (max 0 (utc_instant dt - now e))
                     | _ \<Rightarrow> None) \<and>
         parse_retry_after e (resp\<lparr>retry_after_header := Some []\<rparr>) = Inr None \<and>
         parse_retry_after e (resp\<lparr>retry_after_header := None\<rparr>) = Inr None"
  using assms
  by (auto simp: parse_retry_after_def seconds_until_def utc_instant_def Let_def
      split: option.splits sum.splits)

theorem parse_retry_after_http_date_witness:
  "py_float (sample_env (\<lambda>n req. Inl (RequestError []))) ''Wed, 21 Oct 2015 07:28:00 GMT'' = None \<and>
   parse_retry_after (sample_env (\<lambda>n req. Inl (RequestError [])))
     \<lparr>status_code = 429, retry_after_header = Some ''Wed, 21 Oct 2015 07:28:00 GMT'',
      json = RaisesValueError, body_text = []\<rparr> = Inr (Some 10) \<and>
   py_float ((sample_env (\<lambda>n req. Inl (RequestError [])))\<lparr>now := 1445412490\<rparr>)
     ''Wed, 21 Oct 2015 07:28:00 GMT'' = None \<and>
   parse_retry_after ((sample_env (\<lambda>n req. Inl (RequestError [])))\<lparr>now := 1445412490\<rparr>)
     \<lparr>status_code = 429, retry_after_header = Some ''Wed, 21 Oct 2015 07:28:00 GMT'',
      json = RaisesValueError, body_text = []\<rparr> = Inr (Some 0) \<and>
   py_float (sample_env (\<lambda>n req. Inl (RequestError []))) ''soon'' = None \<and>
   parse_retry_after (sample_env (\<lambda>n req. Inl (RequestError [])))
     \<lparr>status_code = 429, retry_after_header = Some ''soon'', json = RaisesValueError, body_text = []\<rparr>
     = Inr None \<and>
   py_float (sample_env (\<lambda>n req. Inl (RequestError []))) ''Wed, 21 Oct 2015 07:28:00 -0000'' = None \<and>
   parse_retry_after (sample_env (\<lambda>n req. Inl (RequestError [])))
     \<lparr>status_code = 429, retry_after_header = Some ''Wed, 21 Oct 2015 07:28:00 -0000'',
      json = RaisesValueError, body_text = []\<rparr> = Inr (Some 10) \<and>
   py_float (sample_env (\<lambda>n req. Inl (RequestError []))) ''Wed, 21 Oct 2015 09:28:00 +0200'' = None \<and>
   parse_retry_after (sample_env (\<lambda>n req. Inl (RequestError [])))
     \<lparr>status_code = 429, retry_after_header = Some ''Wed, 21 Oct 2015 09:28:00 +0200'',
      json = RaisesValueError, body_text = []\<rparr> = Inr (Some 10)"
  using
    parse_retry_after_http_date
      [of "sample_env (\<lambda>n req. Inl (RequestError []))" "''Wed, 21 Oct 2015 07:28:00 GMT''"
          "\<lparr>status_code = 429, retry_after_header = None, json = RaisesValueError, body_text = []\<rparr>"]
    parse_retry_after_http_date
      [of "(sample_env (\<lambda>n req. Inl (RequestError [])))\<lparr>now := 1445412490\<rparr>"
          "''Wed, 21 Oct 2015 07:28:00 GMT''"
          "\<lparr>status_code = 429, retry_after_header = None, json = RaisesValueError, body_text = []\<rparr>"]
    parse_retry_after_http_date
      [of "sample_env (\<lambda>n req. Inl (RequestError []))" "''soon''"
          "\<lparr>status_code = 429, retry_after_header = None, json = RaisesValueError, body_text = []\<rparr>"]
    parse_retry_after_http_date
      [of "sample_env (\<lambda>n req. Inl (RequestError []))" "''Wed, 21 Oct 2015 07:28:00 -0000''"
          "\<lparr>status_code = 429, retry_after_header = None, json = RaisesValueError, body_text = []\<rparr>"]
    parse_retry_after_http_date
      [of "sample_env (\<lambda>n req. Inl (RequestError []))" "''Wed, 21 Oct 2015 09:28:00 +0200''"
          "\<lparr>status_code = 429, retry_after_header = None, json = RaisesValueError, body_text = []\<rparr>"]
  by (simp add: sample_env_def float_decimal_def unsigned_decimal_def digit_value_def
      utc_instant_def)

section \<open>Properties of the parameter merge\<close>

lemma map_of_dict_set: "map_of (dict_set k v d) = (map_of d)(k \<mapsto> v)"
  by (induction d) (auto simp: fun_eq_iff)

lemma keys_dict_set: "fst ` set (dict_set k v d) = insert k (fst ` set d)"
proof -
  have "fst ` set (dict_set k v d) = dom (map_of (dict_set k v d))"
    by (simp add: dom_map_of_conv_image_fst)
  also have "\<dots> = insert k (dom (map_of d))"
    by (simp add: map_of_dict_set)
  finally show ?thesis
    by (simp add: dom_map_of_conv_image_fst)
qed

lemma distinct_dict_set: "distinct (map fst d) \<Longrightarrow> distinct (map fst (dict_set k v d))"
  by (induction d) (auto simp: keys_dict_set)

lemma distinct_dict_merge: "distinct (map fst d) \<Longrightarrow> distinct (map fst (dict_merge d p))"
  unfolding dict_merge_def
  by (induction p arbitrary: d) (auto simp: distinct_dict_set)

lemma map_of_dict_merge:
  "distinct (map fst p) \<Longrightarrow> map_of (dict_merge d p) = map_of d ++ map_of p"
  unfolding dict_merge_def
proof (induction p arbitrary: d)
  case Nil
  then show ?case by simp
next
  case (Cons a p)
  obtain k v where a: "a = (k, v)" by (cases a)
  from Cons.prems a have notin: "k \<notin> dom (map_of p)" and dist: "distinct (map fst p)"
    by (auto simp: dom_map_of_conv_image_fst)
  have "map_of (fold (\<lambda>(k, v). dict_set k v) (a # p) d)
        = map_of (dict_set k v d) ++ map_of p"
    using Cons.IH [OF dist, of "dict_set k v d"] a by simp
  also have "\<dots> = (map_of d ++ map_of p)(k \<mapsto> v)"
    using notin by (simp add: map_of_dict_set map_add_upd_left)
  also have "\<dots> = map_of d ++ map_of (a # p)"
    using a by simp
  finally show ?case .
qed

lemma map_of_drop_none:
  "distinct (map fst d) \<Longrightarrow> map_of (drop_none d) = without_none (map_of d)"
proof (induction d)
  case Nil
  then show ?case by (simp add: drop_none_def without_none_def fun_eq_iff)
next
  case (Cons a d)
  obtain k v where a: "a = (k, v)" by (cases a)
  from Cons.prems a have "k \<notin> fst ` set (filter (\<lambda>(k, v). v \<noteq> PyNone) d)"
    by auto
  then have gone: "map_of (drop_none d) k = None"
    by (simp add: drop_none_def map_of_eq_None_iff)
  have ih: "map_of (drop_none d) = without_none (map_of d)"
    using Cons by simp
  show ?case
  proof (rule ext)
    fix x
    show "map_of (drop_none (a # d)) x = without_none (map_of (a # d)) x"
    proof (cases "x = k")
      case True
      have "map_of (drop_none (a # d)) k = (if v = PyNone then None else Some v)"
        using gone a by (simp add: drop_none_def)
      with True a show ?thesis by (simp add: without_none_def)
    next
      case False
      have "map_of (drop_none (a # d)) x = map_of (drop_none d) x"
        using False a by (simp add: drop_none_def)
      with False a ih show ?thesis by (simp add: without_none_def)
    qed
  qed
qed

lemma distinct_drop_none: "distinct (map fst d) \<Longrightarrow> distinct (map fst (drop_none d))"
  by (simp add: drop_none_def distinct_map_filter)

text \<open>
  C7: the query parameters of the request that a call hands to the client. With no
  parameters from the caller they are the defaults without their None-valued entries; a
  mapping from the caller is laid over the defaults, the caller's value winning on a
  shared key, and the None-valued entries are then dropped; a sequence of key/value
  pairs is handed on as it is. The attempt, blocking or not, calls the client with this
  request: what the client answers to it is what the attempt gets. The witness is the
  example of the spec: \<^verbatim>\<open>{"page": 2}\<close> over \<^verbatim>\<open>{"mailto": "x@y.com", "page": 1}\<close> (and a
  None-valued default) gives \<^verbatim>\<open>{"mailto": "x@y.com", "page": 2}\<close>.
\<close>

theorem merge_params_overlay:
  assumes "distinct (map fst (default_params api))" and "distinct (map fst m)"
  shows "(\<exists>d. req_params (request_of api path None hdrs) = ParamMapping d \<and>
              distinct (map fst d) \<and>
              map_of d = without_none (map_of (default_params api))) \<and>
         (\<exists>d. req_params (request_of api path (Some (ParamMapping m)) hdrs) = ParamMapping d \<and>
              distinct (map fst d) \<and>
              map_of d = without_none (map_of (default_params api) ++ map_of m)) \<and>
         req_params (request_of api path (Some (ParamSequence s)) hdrs) = ParamSequence s \<and>
         req_params (request_of api path ps hdrs) = merge_params api ps \<and>
         (client_get e n (request_of api path ps hdrs) = Inl x \<longrightarrow>
            get_once api e n path ps hdrs = Inl x \<and> aget_once api e n path ps hdrs = Inl x)"
  using assms
  by (simp add: merge_params_def request_of_def map_of_drop_none map_of_dict_merge
      distinct_dict_merge distinct_drop_none get_once_def aget_once_def)

theorem merge_params_overlay_witness:
  "distinct (map fst (default_params
      \<lparr>base_url = ''https://api.example.org'', headers = [],
       default_params = [(''mailto'', PyStr ''x@y.com''), (''page'', PyInt 1), (''select'', PyNone)],
       return_none_on_404 = False, max_retries = 3, jitter_max_seconds = 1 / 4\<rparr>)) \<and>
   distinct (map fst [(''page'', PyInt 2)]) \<and>
   req_params (request_of
      \<lparr>base_url = ''https://api.example.org'', headers = [],
       default_params = [(''mailto'', PyStr ''x@y.com''), (''page'', PyInt 1), (''select'', PyNone)],
       return_none_on_404 = False, max_retries = 3, jitter_max_seconds = 1 / 4\<rparr>
      ''/works'' (Some (ParamMapping [(''page'', PyInt 2)])) None)
     = ParamMapping [(''mailto'', PyStr ''x@y.com''), (''page'', PyInt 2)] \<and>
   (\<exists>d. req_params (request_of
      \<lparr>base_url = ''https://api.example.org'', headers = [],
       default_params = [(''mailto'', PyStr ''x@y.com''), (''page'', PyInt 1), (''select'', PyNone)],
       return_none_on_404 = False, max_retries = 3, jitter_max_seconds = 1 / 4\<rparr>
      ''/works'' (Some (ParamMapping [(''page'', PyInt 2)])) None) = ParamMapping d \<and>
      map_of d = without_none
        (map_of [(''mailto'', PyStr ''x@y.com''), (''page'', PyInt 1), (''select'', PyNone)]
           ++ map_of [(''page'', PyInt 2)])) \<and>
   client_get
     (sample_env (\<lambda>n req.
        if req_params req = ParamMapping [(''mailto'', PyStr ''x@y.com''), (''page'', PyInt 2)]
        then Inl (RequestError ''merged'') else Inl (RequestError ''not merged'')))
     1
     (request_of
      \<lparr>base_url = ''https://api.example.org'', headers = [],
       default_params = [(''mailto'', PyStr ''x@y.com''), (''page'', PyInt 1), (''select'', PyNone)],
       return_none_on_404 = False, max_retries = 3, jitter_max_seconds = 1 / 4\<rparr>
      ''/works'' (Some (ParamMapping [(''page'', PyInt 2)])) None)
     = Inl (RequestError ''merged'') \<and>
   get_once
      \<lparr>base_url = ''https://api.example.org'', headers = [],
       default_params = [(''mailto'', PyStr ''x@y.com''), (''page'', PyInt 1), (''select'', PyNone)],
       return_none_on_404 = False, max_retries = 3, jitter_max_seconds = 1 / 4\<rparr>
     (sample_env (\<lambda>n req.
        if req_params req = ParamMapping [(''mailto'', PyStr ''x@y.com''), (''page'', PyInt 2)]
        then Inl (RequestError ''merged'') else Inl (RequestError ''not merged'')))
     1 ''/works'' (Some (ParamMapping [(''page'', PyInt 2)])) None
     = Inl (RequestError ''merged'')"
  using merge_params_overlay
    [where api = "\<lparr>base_url = ''https://api.example.org'', headers = [],
       default_params = [(''mailto'', PyStr ''x@y.com''), (''page'', PyInt 1), (''select'', PyNone)],
       return_none_on_404 = False, max_retries = 3, jitter_max_seconds = 1 / 4\<rparr>"
     and m = "[(''page'', PyInt 2)]" and path = "''/works''" and hdrs = None
     and ps = "Some (ParamMapping [(''page'', PyInt 2)])" and n = 1
     and x = "RequestError ''merged''"
     and e = "sample_env (\<lambda>n req.
        if req_params req = ParamMapping [(''mailto'', PyStr ''x@y.com''), (''page'', PyInt 2)]
        then Inl (RequestError ''merged'') else Inl (RequestError ''not merged''))"]
  by (simp add: merge_params_def dict_merge_def drop_none_def request_of_def sample_env_def)

section \<open>Properties of one attempt and of the loop\<close>

lemma retrying_call_returns:
  "\<not> retry_if_exception_type (st\<lparr>outcome := Some (fn (attempt_number st))\<rparr>) \<Longrightarrow>
   retrying_call api e fn st =
     (fn (attempt_number st), st\<lparr>outcome := Some (fn (attempt_number st))\<rparr>)"
  by (subst retrying_call.simps) (simp add: Let_def)

lemma sleep_and_prepare_returns:
  "sleep_and_prepare api e st =
     Inr (st\<lparr>outcome := None, attempt_number := attempt_number st + 1, next_action := None,
             idle_for := idle_for st + wait api e st, slept := slept st @ [wait api e st]\<rparr>)"
  by (auto simp: sleep_and_prepare_def plan_sleep_def prepare_for_next_attempt_def
      maybe_sleep_until_retry_after_def Let_def
      split: option.splits sum.splits exn.splits)

lemma retrying_call_retries:
  "retry_if_exception_type (st\<lparr>outcome := Some (fn (attempt_number st))\<rparr>) \<Longrightarrow>
   attempt_number st < max_retries api \<Longrightarrow>
   sleep_and_prepare api e (st\<lparr>outcome := Some (fn (attempt_number st))\<rparr>) = Inr st2 \<Longrightarrow>
   retrying_call api e fn st = retrying_call api e fn st2"
  by (subst retrying_call.simps) (simp add: Let_def stop_after_attempt_def)

lemma retrying_call_gives_up:
  "retry_if_exception_type (st\<lparr>outcome := Some (fn (attempt_number st))\<rparr>) \<Longrightarrow>
   max_retries api \<le> attempt_number st \<Longrightarrow>
   retrying_call api e fn st =
     (fn (attempt_number st), st\<lparr>outcome := Some (fn (attempt_number st))\<rparr>)"
  by (subst retrying_call.simps)
     (auto simp: Let_def stop_after_attempt_def retry_if_exception_type_def
        split: sum.splits exn.splits option.splits)

lemma retryable_not_success: "s \<in> RETRYABLE_STATUSES \<Longrightarrow> \<not> is_success s"
  by (auto simp: RETRYABLE_STATUSES_def is_success_def)

lemma aget_once_eq: "aget_once api e n path ps hdrs = get_once api e n path ps hdrs"
  by (simp add: aget_once_def get_once_def)

lemma get_once_response:
  assumes "client_get e n (request_of api path ps hdrs) = Inr resp"
  shows "\<exists>h. parse_retry_after e resp = Inr h \<and>
     get_once api e n path ps hdrs =
       (if status_code resp \<in> RETRYABLE_STATUSES then Inl (RetryableStatus (status_code resp) h)
        else if status_code resp = 404 \<and> return_none_on_404 api then Inr PyNone
        else if is_success (status_code resp) then parse resp
        else Inl (HTTPStatusError (status_code resp)))"
proof -
  obtain h where h: "parse_retry_after e resp = Inr h"
    using parse_retry_after_returns by blast
  show ?thesis
    using assms h
    by (simp add: get_once_def maybe_raise_for_retry_def raise_for_status_def)
qed










section \<open>Properties of the waits\<close>

lemma sleep_and_prepare_fields:
  assumes "sleep_and_prepare api e st = Inr st2"
  shows "attempt_number st2 = attempt_number st + 1"
    and "slept st2 = slept st @ [wait api e st]"
  using assms by (auto simp: sleep_and_prepare_returns)

lemma wait_outcome [simp]: "wait api e (st\<lparr>outcome := x\<rparr>) = wait api e st"
  by (simp add: wait_def)

lemma retrying_call_step:
  obtains
    (ends) "retrying_call api e fn st =
        (fn (attempt_number st), st\<lparr>outcome := Some (fn (attempt_number st))\<rparr>)"
      "\<not> (retry_if_exception_type (st\<lparr>outcome := Some (fn (attempt_number st))\<rparr>)
          \<and> attempt_number st < max_retries api)"
  | (again) st2 where
      "retry_if_exception_type (st\<lparr>outcome := Some (fn (attempt_number st))\<rparr>)"
      "attempt_number st < max_retries api"
      "sleep_and_prepare api e (st\<lparr>outcome := Some (fn (attempt_number st))\<rparr>) = Inr st2"
      "retrying_call api e fn st = retrying_call api e fn st2"
proof (cases "retry_if_exception_type (st\<lparr>outcome := Some (fn (attempt_number st))\<rparr>)
    \<and> attempt_number st < max_retries api")
  case True
  obtain st2 where st2:
    "sleep_and_prepare api e (st\<lparr>outcome := Some (fn (attempt_number st))\<rparr>) = Inr st2"
    using sleep_and_prepare_returns by blast
  with True again retrying_call_retries [where st = st and fn = fn and api = api and e = e]
  show ?thesis by blast
next
  case False
  then have "retrying_call api e fn st =
      (fn (attempt_number st), st\<lparr>outcome := Some (fn (attempt_number st))\<rparr>)"
    using retrying_call_returns [where st = st and fn = fn and api = api and e = e]
      retrying_call_gives_up [where st = st and fn = fn and api = api and e = e]
    by (cases "retry_if_exception_type (st\<lparr>outcome := Some (fn (attempt_number st))\<rparr>)") auto
  with False ends show ?thesis by blast
qed

lemma attempt_number_retrying_call:
  "attempt_number st \<le> attempt_number (snd (retrying_call api e fn st))"
proof (induction api e fn st rule: retrying_call.induct)
  case (1 api e fn st)
  show ?case
  proof (cases rule: retrying_call_step [of api e fn st])
    case ends
    then show ?thesis by simp
  next
    case (again st2)
    then have "attempt_number st2 \<le> attempt_number (snd (retrying_call api e fn st2))"
      using "1.IH" [of "fn (attempt_number st)" "st\<lparr>outcome := Some (fn (attempt_number st))\<rparr>" st2]
      by (simp add: stop_after_attempt_def)
    with again show ?thesis
      using sleep_and_prepare_fields(1) [OF again(3)] by simp
  qed
qed

lemma slept_retrying_call:
  "slept (snd (retrying_call api e fn st)) =
     slept st @
     map (\<lambda>k. wait_exponential (1 / 2) 8 k
                + wait_random 0 (jitter_max_seconds api) (random_random e k))
       [attempt_number st .. attempt_number (snd (retrying_call api e fn st)) - 1]"
proof (induction api e fn st rule: retrying_call.induct)
  case (1 api e fn st)
  let ?w = "\<lambda>k. wait_exponential (1 / 2) 8 k
                + wait_random 0 (jitter_max_seconds api) (random_random e k)"
  show ?case
  proof (cases rule: retrying_call_step [of api e fn st])
    case ends
    then show ?thesis by simp
  next
    case (again st2)
    let ?m = "attempt_number (snd (retrying_call api e fn st2))"
    have n2: "attempt_number st2 = attempt_number st + 1"
      and s2: "slept st2 = slept st @ [?w (attempt_number st)]"
      using sleep_and_prepare_fields [OF again(3)] by (simp_all add: wait_def)
    have ih: "slept (snd (retrying_call api e fn st2)) =
        slept st2 @ map ?w [attempt_number st2 .. ?m - 1]"
      using "1.IH" [of "fn (attempt_number st)" "st\<lparr>outcome := Some (fn (attempt_number st))\<rparr>" st2]
        again
      by (simp add: stop_after_attempt_def)
    have "attempt_number st + 1 \<le> ?m"
      using attempt_number_retrying_call [of st2 api e fn] n2 by simp
    then have "[attempt_number st .. ?m - 1] = attempt_number st # [attempt_number st + 1 .. ?m - 1]"
      by (simp add: upto_rec1)
    then show ?thesis
      using ih again(4) n2 s2 by simp
  qed
qed

lemma wait_exponential_first: "wait_exponential (1 / 2) 8 1 = 1 / 2"
  by (simp add: wait_exponential_def)

lemma wait_exponential_closed:
  assumes "1 \<le> k"
  shows "wait_exponential (1 / 2) 8 k = min 8 (2 ^ nat (k - 1) / 2)"
proof (cases "1024 \<le> k - 1")
  case True
  then have "4 \<le> nat (k - 1)" by simp
  then have "(2::rat) ^ 4 \<le> 2 ^ nat (k - 1)"
    by (intro power_increasing) simp_all
  then have "(8::rat) \<le> 2 ^ nat (k - 1) / 2" by simp
  with True show ?thesis
    by (simp add: wait_exponential_def)
next
  case False
  have "(0::rat) < 2 ^ nat (k - 1)" by simp
  with False show ?thesis
    by (simp add: wait_exponential_def min_def max_def)
qed

lemma wait_exponential_doubles:
  assumes "1 \<le> k"
  shows "wait_exponential (1 / 2) 8 (k + 1) = min 8 (2 * wait_exponential (1 / 2) 8 k)"
proof -
  have suc: "nat k = Suc (nat (k - 1))"
    using assms by simp
  have "wait_exponential (1 / 2) 8 (k + 1) = min 8 (2 ^ nat k / 2)"
    using wait_exponential_closed [of "k + 1"] assms by simp
  also have "\<dots> = min 8 (2 * min 8 (2 ^ nat (k - 1) / 2))"
    by (simp add: suc min_def)
  finally show ?thesis
    using wait_exponential_closed [OF assms] by simp
qed

lemma wait_exponential_mono: "wait_exponential (1 / 2) 8 k \<le> wait_exponential (1 / 2) 8 (k + 1)"
proof (cases "1 \<le> k")
  case True
  have "0 \<le> wait_exponential (1 / 2) 8 k" "wait_exponential (1 / 2) 8 k \<le> 8"
    by (auto simp: wait_exponential_def)
  then show ?thesis
    using wait_exponential_doubles [OF True] by (simp add: min_def)
next
  case False
  then have "nat (k - 1) = 0" "nat k = 0" by simp_all
  with False show ?thesis
    by (simp add: wait_exponential_def)
qed

lemma jitter_bounds:
  assumes "0 \<le> r" and "r < 1" and "0 \<le> j"
  shows "0 \<le> r * j \<and> r * j \<le> (j::rat)"
proof -
  have "r * j \<le> 1 * j"
    using assms by (intro mult_right_mono) simp_all
  then show ?thesis
    using assms by simp
qed

text \<open>
  C4: the waits slept in one call, blocking or not, are, retry after retry, the
  exponential backoff of the attempt that failed plus the jitter drawn for it, which is
  \<^verbatim>\<open>random.random()\<close>, a number in [0, 1), times \<^verbatim>\<open>jitter_max_seconds\<close>, hence between
  0 and \<^verbatim>\<open>jitter_max_seconds\<close>. The backoff of attempt \<open>k\<close> is \<open>2 ^ (k - 1) / 2\<close> cut at 8:
  it starts at 1/2, doubles with each attempt up to the cap of 8, and never decreases.
  This holds for every failure that is retried, with or without a Retry-After hint.
\<close>

theorem backoff_schedule:
  assumes "\<forall>k. 0 \<le> random_random e k \<and> random_random e k < 1"
    and "0 \<le> jitter_max_seconds api"
  shows "slept (snd (get api e path ps hdrs)) =
        map (\<lambda>k. wait_exponential (1 / 2) 8 k + random_random e k * jitter_max_seconds api)
          [1 .. attempt_number (snd (get api e path ps hdrs)) - 1] \<and>
      slept (snd (aget api e path ps hdrs)) =
        map (\<lambda>k. wait_exponential (1 / 2) 8 k + random_random e k * jitter_max_seconds api)
          [1 .. attempt_number (snd (aget api e path ps hdrs)) - 1] \<and>
      (\<forall>k. 0 \<le> random_random e k * jitter_max_seconds api \<and>
           random_random e k * jitter_max_seconds api \<le> jitter_max_seconds api) \<and>
      wait_exponential (1 / 2) 8 1 = 1 / 2 \<and>
      (\<forall>k\<ge>1. wait_exponential (1 / 2) 8 k = min 8 (2 ^ nat (k - 1) / 2)) \<and>
      (\<forall>k\<ge>1. wait_exponential (1 / 2) 8 (k + 1) = min 8 (2 * wait_exponential (1 / 2) 8 k)) \<and>
      (\<forall>k. wait_exponential (1 / 2) 8 k \<le> wait_exponential (1 / 2) 8 (k + 1))"
proof -
  have bounds: "\<forall>k. 0 \<le> random_random e k * jitter_max_seconds api \<and>
           random_random e k * jitter_max_seconds api \<le> jitter_max_seconds api"
    using assms jitter_bounds by blast
  have g: "slept (snd (get api e path ps hdrs)) =
        map (\<lambda>k. wait_exponential (1 / 2) 8 k + random_random e k * jitter_max_seconds api)
          [1 .. attempt_number (snd (get api e path ps hdrs)) - 1]"
    using slept_retrying_call [of api e "\<lambda>n. get_once api e n path ps hdrs" initial_state]
    by (simp add: get_def initial_state_def wait_random_def)
  have a: "slept (snd (aget api e path ps hdrs)) =
        map (\<lambda>k. wait_exponential (1 / 2) 8 k + random_random e k * jitter_max_seconds api)
          [1 .. attempt_number (snd (aget api e path ps hdrs)) - 1]"
    using slept_retrying_call [of api e "\<lambda>n. aget_once api e n path ps hdrs" initial_state]
    by (simp add: aget_def initial_state_def wait_random_def)
  show ?thesis
    using bounds g a wait_exponential_first wait_exponential_closed wait_exponential_doubles
      wait_exponential_mono
    by simp
qed

text \<open>The definitions that a concrete run unfolds.\<close>

lemmas run_defs =
  get_def aget_def get_once_def aget_once_def retrying_call.simps initial_state_def
  sample_env_def respond_def always_def first_then_def request_of_def
  maybe_raise_for_retry_def RETRYABLE_STATUSES_def parse_retry_after_def
  float_decimal_def unsigned_decimal_def digit_value_def
  retry_if_exception_type_def stop_after_attempt_def openalex_api_def jina_api_def
  sleep_and_prepare_def plan_sleep_def wait_def wait_exponential_def wait_random_def
  maybe_sleep_until_retry_after_def prepare_for_next_attempt_def raise_for_status_def
  is_success_def parse_def Let_def

theorem backoff_schedule_witness:
  "(\<forall>k. 0 \<le> random_random (sample_env (always (respond 429 None None []))) k \<and>
        random_random (sample_env (always (respond 429 None None []))) k < 1) \<and>
   0 \<le> jitter_max_seconds (openalex_api ''m'') \<and>
   slept (snd (get (openalex_api ''m'') (sample_env (always (respond 429 None None [])))
     ''/works'' None None)) = [1 / 2 + 1 / 8, 1 + 1 / 8] \<and>
   attempt_number (snd (get (openalex_api ''m'') (sample_env (always (respond 429 None None [])))
     ''/works'' None None)) = 3 \<and>
   slept (snd (get (openalex_api ''m'') (sample_env (always (respond 429 None None [])))
     ''/works'' None None)) =
     map (\<lambda>k. wait_exponential (1 / 2) 8 k
                + random_random (sample_env (always (respond 429 None None []))) k
                  * jitter_max_seconds (openalex_api ''m''))
       [1 .. attempt_number (snd (get (openalex_api ''m'')
               (sample_env (always (respond 429 None None []))) ''/works'' None None)) - 1]"
proof -
  have r: "\<forall>k. 0 \<le> random_random (sample_env (always (respond 429 None None []))) k \<and>
        random_random (sample_env (always (respond 429 None None []))) k < 1"
    by (simp add: sample_env_def)
  have j: "0 \<le> jitter_max_seconds (openalex_api ''m'')"
    by (simp add: openalex_api_def)
  have s: "slept (snd (get (openalex_api ''m'') (sample_env (always (respond 429 None None [])))
     ''/works'' None None)) = [1 / 2 + 1 / 8, 1 + 1 / 8]"
    by (simp add: run_defs)
  have n: "attempt_number (snd (get (openalex_api ''m'')
      (sample_env (always (respond 429 None None []))) ''/works'' None None)) = 3"
    by (simp add: run_defs)
  from backoff_schedule [OF r j, of "''/works''" None None] r j s n show ?thesis
    by blast
qed

text \<open>
  C1, at a first response 429 with \<^verbatim>\<open>Retry-After: 2\<close> followed by a 200: the attempt
  raises the retryable signal with the hint 2, and the \<^verbatim>\<open>before_sleep\<close> hook stores 2
  in \<^verbatim>\<open>next_action\<close>; but the loop sleeps the duration that the wait strategy had
  computed before the hook ran, 1/2 + 1/8, in \<^verbatim>\<open>get\<close> and in \<^verbatim>\<open>aget\<close>: the hint does
  not override the backoff.
\<close>

theorem retry_after_hint_not_slept:
  "get_once (openalex_api ''m'')
     (sample_env (first_then (respond 429 (Some ''2'') None [])
                             (respond 200 None (Some (PyDict [(''results'', PyList [PyInt 1])])) [])))
     1 ''/works'' None None = Inl (RetryableStatus 429 (Some 2)) \<and>
   plan_sleep (openalex_api ''m'')
     (sample_env (first_then (respond 429 (Some ''2'') None [])
                             (respond 200 None (Some (PyDict [(''results'', PyList [PyInt 1])])) [])))
     (initial_state\<lparr>outcome := Some (Inl (RetryableStatus 429 (Some 2)))\<rparr>)
     = Inr (5 / 8, initial_state\<lparr>outcome := Some (Inl (RetryableStatus 429 (Some 2))),
                     next_action := Some 2, idle_for := 5 / 8\<rparr>) \<and>
   get (openalex_api ''m'')
     (sample_env (first_then (respond 429 (Some ''2'') None [])
                             (respond 200 None (Some (PyDict [(''results'', PyList [PyInt 1])])) [])))
     ''/works'' None None
     = (Inr (PyDict [(''results'', PyList [PyInt 1])]),
        \<lparr>attempt_number = 2, outcome = Some (Inr (PyDict [(''results'', PyList [PyInt 1])])),
         next_action = None, idle_for = 5 / 8, slept = [5 / 8]\<rparr>) \<and>
   aget (openalex_api ''m'')
     (sample_env (first_then (respond 429 (Some ''2'') None [])
                             (respond 200 None (Some (PyDict [(''results'', PyList [PyInt 1])])) [])))
     ''/works'' None None
     = (Inr (PyDict [(''results'', PyList [PyInt 1])]),
        \<lparr>attempt_number = 2, outcome = Some (Inr (PyDict [(''results'', PyList [PyInt 1])])),
         next_action = None, idle_for = 5 / 8, slept = [5 / 8]\<rparr>) \<and>
   [5 / 8] \<noteq> [max 0 (2::rat)]"
  by (simp add: run_defs)


section \<open>Exhausted retries\<close>









lemmas handler_defs =
  search_papers_def search_authors_def search_institutions_def papers_by_author_def
  referenced_works_in_paper_def related_works_of_paper_def works_citing_paper_def
  fetch_fulltext_def try_request_def raise_if_empty_def except_request_errors_def
  strip_jina_prefix_def jina_prefix_def validate_url_with_ssrf_guard_def
  string_of_int_def string_of_nat.simps py_or_def
  call_tool_def tool_error_prefix_def exn_str_def cause_text_def handler_report_def
  retryable_failure_def



section \<open>The None result\<close>

lemma get_once_none_cases:
  assumes "client_get e n (request_of api path ps hdrs) = Inr resp"
    and "(status_code resp = 404 \<and> return_none_on_404 api) \<or> status_code resp = 204 \<or>
         (is_success (status_code resp) \<and> json resp = Decoded PyNone)"
  shows "get_once api e n path ps hdrs = Inr PyNone"
proof -
  obtain h where g: "get_once api e n path ps hdrs =
       (if status_code resp \<in> RETRYABLE_STATUSES then Inl (RetryableStatus (status_code resp) h)
        else if status_code resp = 404 \<and> return_none_on_404 api then Inr PyNone
        else if is_success (status_code resp) then parse resp
        else Inl (HTTPStatusError (status_code resp)))"
    using get_once_response [OF assms(1)] by blast
  from assms(2) consider
      (missing) "status_code resp = 404" "return_none_on_404 api"
    | (no_content) "status_code resp = 204"
    | (null) "is_success (status_code resp)" "json resp = Decoded PyNone"
    by blast
  then show ?thesis
  proof cases
    case missing
    then show ?thesis
      using g by (simp add: RETRYABLE_STATUSES_def)
  next
    case no_content
    then show ?thesis
      using g by (simp add: RETRYABLE_STATUSES_def is_success_def parse_def)
  next
    case null
    then have "status_code resp \<notin> RETRYABLE_STATUSES"
      using retryable_not_success by blast
    moreover have "status_code resp \<noteq> 404"
      using null(1) by (auto simp: is_success_def)
    ultimately show ?thesis
      using g null by (simp add: parse_def)
  qed
qed

lemma get_none_cases:
  assumes "client_get e 1 (request_of api path ps hdrs) = Inr resp"
    and "(status_code resp = 404 \<and> return_none_on_404 api) \<or> status_code resp = 204 \<or>
         (is_success (status_code resp) \<and> json resp = Decoded PyNone)"
  shows "fst (get api e path ps hdrs) = Inr PyNone \<and> fst (aget api e path ps hdrs) = Inr PyNone"
proof -
  have once: "get_once api e 1 path ps hdrs = Inr PyNone"
    using get_once_none_cases [OF assms] .
  have a1: "attempt_number initial_state = 1"
    by (simp add: initial_state_def)
  have "\<not> retry_if_exception_type
      (initial_state\<lparr>outcome := Some (get_once api e (attempt_number initial_state) path ps hdrs)\<rparr>)"
    by (simp add: a1 once retry_if_exception_type_def)
  then have "retrying_call api e (\<lambda>n. get_once api e n path ps hdrs) initial_state
      = (Inr PyNone, initial_state\<lparr>outcome := Some (Inr PyNone)\<rparr>)"
    using retrying_call_returns
      [where st = initial_state and fn = "\<lambda>n. get_once api e n path ps hdrs" and api = api and e = e]
    by (simp add: a1 once)
  then have "fst (get api e path ps hdrs) = Inr PyNone"
    by (simp add: get_def)
  moreover have "aget api e path ps hdrs = get api e path ps hdrs"
    by (simp add: get_def aget_def aget_once_eq)
  ultimately show ?thesis by simp
qed

lemma try_request_none:
  "try_request err (Inr PyNone) (raise_if_empty key msg) = Inl (ToolError msg)"
  by (simp add: try_request_def raise_if_empty_def except_request_errors_def)


lemma fetch_fulltext_none:
  assumes "validate_url_with_ssrf_guard e (strip_jina_prefix url) = Inr True"
    and "fst (aget jina_api e (''/'' @ strip_jina_prefix url) None None) = Inr PyNone"
  shows "fetch_fulltext e url = Inl (ToolError ''Response is empty content. Try again later.'')"
  using assms
  by (simp add: fetch_fulltext_def Let_def try_request_def except_request_errors_def)

text \<open>
  C10: the not-found sentinel is None, and \<^verbatim>\<open>get\<close> and \<^verbatim>\<open>aget\<close> return the same None
  for a 404 under the return-none-on-404 policy, for a 204, and for a successful
  response whose JSON body is \<^verbatim>\<open>null\<close>: the caller cannot tell them apart. Every handler
  answers a None result with a \<^verbatim>\<open>ToolError\<close> that says nothing was found: the seven
  OpenAlex handlers with their "No ... found" message, \<^verbatim>\<open>fetch_fulltext\<close> (once the URL
  has passed the guard) with "Response is empty content. Try again later.". The handlers
  build their client without the 404 policy, so their None comes from the other two
  situations.
\<close>

theorem none_result_is_ambiguous:
  assumes "\<forall>req. client_get e 1 req = Inr resp"
    and "status_code resp = 204 \<or> (is_success (status_code resp) \<and> json resp = Decoded PyNone) \<or>
         (status_code resp = 404 \<and> return_none_on_404 api)"
  shows "fst (get api e path ps hdrs) = Inr PyNone \<and>
     fst (aget api e path ps hdrs) = Inr PyNone \<and>
     (status_code resp \<noteq> 404 \<longrightarrow>
        search_papers e mailto q = Inl (ToolError ''No works found with the query.'') \<and>
        search_authors e mailto q = Inl (ToolError ''No authors found with the query.'') \<and>
        search_institutions e mailto q = Inl (ToolError ''No institutions found with the query.'') \<and>
        papers_by_author e mailto ident q
          = Inl (ToolError (''No works found for author_id='' @ ident @ ''.'')) \<and>
        referenced_works_in_paper e mailto ident
          = Inl (ToolError (''No referenced works found for paper_id='' @ ident @ ''.'')) \<and>
        related_works_of_paper e mailto ident
          = Inl (ToolError (''No related_works works found for paper_id='' @ ident @ ''.'')) \<and>
        works_citing_paper e mailto ident q
          = Inl (ToolError (''No cites found for paper_id='' @ ident @ ''.'')) \<and>
        (validate_url_with_ssrf_guard e (strip_jina_prefix url) = Inr True \<longrightarrow>
           fetch_fulltext e url
             = Inl (ToolError ''Response is empty content. Try again later.'')))"
proof -
  have any: "client_get e 1 (request_of a p s h) = Inr resp" for a p s h
    using assms(1) by simp
  have client: "fst (get api e path ps hdrs) = Inr PyNone \<and>
      fst (aget api e path ps hdrs) = Inr PyNone"
    using get_none_cases [OF any] assms(2) by blast
  have handlers: "fst (aget a e p s h) = Inr PyNone" if "status_code resp \<noteq> 404" for a p s h
    using get_none_cases [OF any, of a p s h] assms(2) that by blast
  have h1: "search_papers e mailto q = Inl (ToolError ''No works found with the query.'')"
    if "status_code resp \<noteq> 404"
    by (simp add: search_papers_def handlers [OF that] try_request_none)
  have h2: "search_authors e mailto q = Inl (ToolError ''No authors found with the query.'')"
    if "status_code resp \<noteq> 404"
    by (simp add: search_authors_def handlers [OF that] try_request_none)
  have h3: "search_institutions e mailto q
      = Inl (ToolError ''No institutions found with the query.'')"
    if "status_code resp \<noteq> 404"
    by (simp add: search_institutions_def handlers [OF that] try_request_none)
  have h4: "papers_by_author e mailto ident q
      = Inl (ToolError (''No works found for author_id='' @ ident @ ''.''))"
    if "status_code resp \<noteq> 404"
    by (simp add: papers_by_author_def handlers [OF that] try_request_none)
  have h5: "referenced_works_in_paper e mailto ident
      = Inl (ToolError (''No referenced works found for paper_id='' @ ident @ ''.''))"
    if "status_code resp \<noteq> 404"
    by (simp add: referenced_works_in_paper_def handlers [OF that] try_request_none)
  have h6: "related_works_of_paper e mailto ident
      = Inl (ToolError (''No related_works works found for paper_id='' @ ident @ ''.''))"
    if "status_code resp \<noteq> 404"
    by (simp add: related_works_of_paper_def handlers [OF that] try_request_none)
  have h7: "works_citing_paper e mailto ident q
      = Inl (ToolError (''No cites found for paper_id='' @ ident @ ''.''))"
    if "status_code resp \<noteq> 404"
    by (simp add: works_citing_paper_def handlers [OF that] try_request_none)
  have h8: "fetch_fulltext e url = Inl (ToolError ''Response is empty content. Try again later.'')"
    if "status_code resp \<noteq> 404"
      and "validate_url_with_ssrf_guard e (strip_jina_prefix url) = Inr True"
    using fetch_fulltext_none [OF that(2) handlers [OF that(1)]] .
  show ?thesis
    using client h1 h2 h3 h4 h5 h6 h7 h8 by blast
qed


theorem none_result_is_ambiguous_witness:
  "(\<forall>req. client_get (sample_env (always (respond 204 None None []))) 1 req
      = respond 204 None None []) \<and>
   fst (aget (openalex_api ''m'') (sample_env (always (respond 204 None None [])))
     ''/works'' None None) = Inr PyNone \<and>
   search_papers (sample_env (always (respond 204 None None []))) ''m'' [(''page'', PyInt 1)]
     = Inl (ToolError ''No works found with the query.'') \<and>
   validate_url_with_ssrf_guard (sample_env (always (respond 204 None None [])))
     (strip_jina_prefix ''https://r.jina.ai/https://example.com/doc'') = Inr True \<and>
   fetch_fulltext (sample_env (always (respond 204 None None [])))
     ''https://r.jina.ai/https://example.com/doc''
     = Inl (ToolError ''Response is empty content. Try again later.'') \<and>
   (\<forall>req. client_get (sample_env (always (respond 200 None (Some PyNone) ''null''))) 1 req
      = respond 200 None (Some PyNone) ''null'') \<and>
   is_success 200 \<and>
   fst (get (openalex_api ''m'') (sample_env (always (respond 200 None (Some PyNone) ''null'')))
     ''/works'' None None) = Inr PyNone \<and>
   referenced_works_in_paper (sample_env (always (respond 200 None (Some PyNone) ''null'')))
     ''m'' ''W1'' = Inl (ToolError ''No referenced works found for paper_id=W1.'') \<and>
   (\<forall>req. client_get (sample_env (always (respond 404 None None ''Not Found''))) 1 req
      = respond 404 None None ''Not Found'') \<and>
   return_none_on_404 ((openalex_api ''m'')\<lparr>return_none_on_404 := True\<rparr>) \<and>
   fst (get ((openalex_api ''m'')\<lparr>return_none_on_404 := True\<rparr>)
     (sample_env (always (respond 404 None None ''Not Found''))) ''/works'' None None) = Inr PyNone"
  using
    none_result_is_ambiguous
      [where e = "sample_env (always (respond 204 None None []))"
        and resp = "\<lparr>status_code = 204, retry_after_header = None, json = RaisesValueError, body_text = []\<rparr>"
        and api = "openalex_api ''m''" and path = "''/works''" and ps = None and hdrs = None
        and mailto = "''m''" and q = "[(''page'', PyInt 1)]" and ident = "''W1''"
        and url = "''https://r.jina.ai/https://example.com/doc''"]
    none_result_is_ambiguous
      [where e = "sample_env (always (respond 200 None (Some PyNone) ''null''))"
        and resp = "\<lparr>status_code = 200, retry_after_header = None, json = Decoded PyNone,
                     body_text = ''null''\<rparr>"
        and api = "openalex_api ''m''" and path = "''/works''" and ps = None and hdrs = None
        and mailto = "''m''" and q = "[(''page'', PyInt 1)]" and ident = "''W1''"
        and url = "''https://r.jina.ai/https://example.com/doc''"]
    none_result_is_ambiguous
      [where e = "sample_env (always (respond 404 None None ''Not Found''))"
        and resp = "\<lparr>status_code = 404, retry_after_header = None, json = RaisesValueError,
                     body_text = ''Not Found''\<rparr>"
        and api = "(openalex_api ''m'')\<lparr>return_none_on_404 := True\<rparr>"
        and path = "''/works''" and ps = None and hdrs = None
        and mailto = "''m''" and q = "[(''page'', PyInt 1)]" and ident = "''W1''"
        and url = "''https://r.jina.ai/https://example.com/doc''"]
  by (simp add: sample_env_def always_def respond_def is_success_def
      validate_url_with_ssrf_guard_def strip_jina_prefix_def jina_prefix_def)

section \<open>The URL guard, as far as the source fixes it\<close>

text \<open>
  The guard hands the library a scheme predicate that holds of \<^verbatim>\<open>http\<close> and
  \<^verbatim>\<open>https\<close> only, returns what the library returns, and answers the library's
  ValidationError with False.
\<close>

lemma validate_url_with_ssrf_guard_cases:
  "validate_url_with_ssrf_guard e url =
     (case validators_url e url (\<lambda>s. s = ''http'' \<or> s = ''https'') of
        Inr result \<Rightarrow> Inr result
      | Inl x \<Rightarrow> if x = ValidationError then Inr False else Inl x)"
  by (simp add: validate_url_with_ssrf_guard_def split: sum.splits exn.splits)

end
